theory Spec2Isabelle
  imports Main
begin

section \<open>Python strings\<close>

text \<open>
  Strings are \<^typ>\<open>string\<close> (lists of characters); a character is a code
  point below 256, which covers the credential strings, header names and file
  lines handled here. The functions below are the methods of Python's
  \<^verbatim>\<open>str\<close> that \<^verbatim>\<open>base_service.py\<close> calls, as they act on these code points.
\<close>

definition startswith :: "string \<Rightarrow> string \<Rightarrow> bool" where
  "startswith s p = (take (length p) s = p)"

definition endswith :: "string \<Rightarrow> string \<Rightarrow> bool" where
  "endswith s p = (length p \<le> length s \<and> drop (length s - length p) s = p)"

text \<open>\<^verbatim>\<open>p in s\<close> on strings: \<open>p\<close> occurs in \<open>s\<close> as a contiguous slice.\<close>

fun str_in :: "string \<Rightarrow> string \<Rightarrow> bool" where
  "str_in p [] = (p = [])"
| "str_in p (c # cs) = (startswith (c # cs) p \<or> str_in p cs)"

text \<open>\<^verbatim>\<open>str.lower\<close>: the capital letters below 256 are \<^verbatim>\<open>A\<close> to \<^verbatim>\<open>Z\<close> (65 to 90)
  and the accented capitals 192 to 222 without the multiplication sign 215;
  the small letter is 32 further on.\<close>

definition lower_char :: "char \<Rightarrow> char" where
  "lower_char c =
     (let n = (of_char c :: nat)
      in if (65 \<le> n \<and> n \<le> 90) \<or> (192 \<le> n \<and> n \<le> 222 \<and> n \<noteq> 215)
         then char_of (n + 32)
         else c)"

definition lower :: "string \<Rightarrow> string" where
  "lower s = map lower_char s"

text \<open>\<^verbatim>\<open>s.replace(a, b)\<close> for one-character \<open>a\<close> and \<open>b\<close>.\<close>

definition replace :: "string \<Rightarrow> char \<Rightarrow> char \<Rightarrow> string" where
  "replace s a b = map (\<lambda>c. if c = a then b else c) s"

text \<open>\<^verbatim>\<open>str.isspace\<close> on one character: the code points below 256 that
  \<^verbatim>\<open>str.strip()\<close> removes, the next-line and no-break-space characters (133
  and 160) among them.\<close>

definition isspace :: "char \<Rightarrow> bool" where
  "isspace c = (c \<in> set [CHR '' '', CHR 0x09, CHR 0x0A, CHR 0x0B, CHR 0x0C, CHR 0x0D,
                          CHR 0x1C, CHR 0x1D, CHR 0x1E, CHR 0x1F, CHR 0x85, CHR 0xA0])"

definition strip :: "string \<Rightarrow> string" where
  "strip s = rev (dropWhile isspace (rev (dropWhile isspace s)))"

text \<open>\<^verbatim>\<open>s.split(sep)\<close> for a one-character separator: one more piece than
  there are separators, empty pieces kept.\<close>

fun split :: "char \<Rightarrow> string \<Rightarrow> string list" where
  "split sep [] = [[]]"
| "split sep (c # cs) =
     (if c = sep then [] # split sep cs
      else (case split sep cs of
              [] \<Rightarrow> [[c]]
            | w # ws \<Rightarrow> (c # w) # ws))"

text \<open>Truthiness of an optional string (\<^verbatim>\<open>if x:\<close>, \<^verbatim>\<open>not x\<close>): \<^verbatim>\<open>None\<close>
  and the empty string are false.\<close>

definition truthy :: "string option \<Rightarrow> bool" where
  "truthy x = (case x of None \<Rightarrow> False | Some s \<Rightarrow> s \<noteq> [])"

section \<open>Errors\<close>

text \<open>The five messages of the \<^verbatim>\<open>ValueError\<close>s raised in \<^verbatim>\<open>base_service.py\<close>.\<close>

datatype value_error =
    BadURL            \<comment> \<open>The URL shouldn't start or end with curly brackets or quotes\<close>
  | BadUsername       \<comment> \<open>The username shouldn't start or end with ...\<close>
  | BadPassword       \<comment> \<open>The password shouldn't start or end with ...\<close>
  | BadCredentials    \<comment> \<open>The credentials shouldn't start or end with ...\<close>
  | NoCredentials     \<comment> \<open>You must specify your IAM api key or username and password ...\<close>

text \<open>JSON values; \<open>JNull\<close> is Python's \<^verbatim>\<open>None\<close>.\<close>

datatype json =
    JNull
  | JBool bool
  | JNum int
  | JStr string
  | JArr "json list"
  | JObj "(string \<times> json) list"

text \<open>The response object of the HTTP library: its status code, its headers, the
  result of \<^verbatim>\<open>response.json()\<close> (\<open>None\<close> when that call raises) and its text.\<close>

record response =
  status_code :: int
  response_headers :: "(string \<times> string) list"
  response_json :: "json option"
  response_text :: string

text \<open>
  Modelled from the spec: the class \<^verbatim>\<open>ApiException\<close> is imported from
  \<^verbatim>\<open>api_exception.py\<close>, which is not among the sources. The specification
  (3): it carries the status code, an optional message and the raw response;
  these are the three arguments of line 342. The other errors are Python's
  own, and those that the token manager and the HTTP library raise.
\<close>

datatype error =
    ValueError value_error
  | TypeError
  | KeyError
  | IndexError
  | AttributeError
  | JSONDecodeError
  | IOError
  | TokenError                                  \<comment> \<open>raised by the token manager\<close>
  | TransportError                              \<comment> \<open>raised by the HTTP library\<close>
  | ApiException int "string option" response   \<comment> \<open>code, message, http_response\<close>

section \<open>Helpers of \<^verbatim>\<open>utils.py\<close>\<close>

text \<open>
  Modelled from the spec: \<^verbatim>\<open>has_bad_first_or_last_char\<close> is imported from
  \<^verbatim>\<open>utils.py\<close>, which is not among the sources. The specification (4.1): a
  credential string must not start or end with a brace (\<^verbatim>\<open>{\<close> or \<^verbatim>\<open>}\<close>) or a
  double-quote character. The code calls it on values that may be \<^verbatim>\<open>None\<close>
  (an absent API key next to an access token), where nothing starts or ends.
\<close>

definition bad_chars :: "string list" where
  "bad_chars = [''{'', ''}'', [CHR 0x22]]"

definition has_bad_first_or_last_char :: "string option \<Rightarrow> bool" where
  "has_bad_first_or_last_char str =
     (case str of
        None \<Rightarrow> False
      | Some s \<Rightarrow> list_ex (\<lambda>b. startswith s b \<or> endswith s b) bad_chars)"

text \<open>
  Modelled from the spec: \<^verbatim>\<open>remove_null_values\<close> is imported from \<^verbatim>\<open>utils.py\<close>
  too. The specification (4.4, step 3): null-valued entries are stripped from
  the header, query-parameter, body and file maps. Lines 290 to 294 call it
  on arguments that are \<^verbatim>\<open>None\<close> by default and on raw bodies that are
  strings; these have no entries and pass unchanged.
\<close>

definition remove_null_values :: "('k \<times> 'v option) list \<Rightarrow> ('k \<times> 'v) list" where
  "remove_null_values dictionary =
     concat (map (\<lambda>(k, v). case v of None \<Rightarrow> [] | Some x \<Rightarrow> [(k, x)]) dictionary)"

text \<open>The same on a JSON body (\<^const>\<open>JNull\<close> is Python's \<^verbatim>\<open>None\<close>) and on a raw body.\<close>

definition remove_null_values_json :: "json \<Rightarrow> json" where
  "remove_null_values_json j =
     (case j of
        JObj kvs \<Rightarrow> JObj (filter (\<lambda>(k, v). v \<noteq> JNull) kvs)
      | _ \<Rightarrow> j)"

datatype body =
    NoData                                   \<comment> \<open>\<^verbatim>\<open>None\<close>\<close>
  | StrData string
  | BytesData string
  | DictData "(string \<times> string option) list"

definition remove_null_values_data :: "body \<Rightarrow> body" where
  "remove_null_values_data d =
     (case d of
        DictData kvs \<Rightarrow> DictData (filter (\<lambda>(k, v). v \<noteq> None) kvs)
      | _ \<Rightarrow> d)"

section \<open>The token manager\<close>

text \<open>
  Modelled from the spec: the class \<^verbatim>\<open>IAMTokenManager\<close> is imported from
  \<^verbatim>\<open>iam_token_manager.py\<close>, which is not among the sources. The
  specification (3, 4.2) gives it the fields API key, IAM URL (\<open>None\<close>: the
  standard endpoint) and access token, each overwritten by its mutator. The
  cached token and its expiry are behind \<^verbatim>\<open>get_token\<close>, which the request
  dispatcher below takes as a parameter.
\<close>

record token_manager =
  tm_iam_apikey :: "string option"
  tm_iam_access_token :: "string option"
  tm_iam_url :: "string option"

definition IAMTokenManager :: "string option \<Rightarrow> string option \<Rightarrow> string option \<Rightarrow> token_manager" where
  "IAMTokenManager iam_apikey iam_access_token iam_url =
     \<lparr>tm_iam_apikey = iam_apikey, tm_iam_access_token = iam_access_token, tm_iam_url = iam_url\<rparr>"

definition tm_set_access_token :: "token_manager \<Rightarrow> string option \<Rightarrow> token_manager" where
  "tm_set_access_token tm iam_access_token = tm\<lparr>tm_iam_access_token := iam_access_token\<rparr>"

definition tm_set_iam_url :: "token_manager \<Rightarrow> string option \<Rightarrow> token_manager" where
  "tm_set_iam_url tm iam_url = tm\<lparr>tm_iam_url := iam_url\<rparr>"

definition tm_set_iam_apikey :: "token_manager \<Rightarrow> string option \<Rightarrow> token_manager" where
  "tm_set_iam_apikey tm iam_apikey = tm\<lparr>tm_iam_apikey := iam_apikey\<rparr>"

section \<open>The service object\<close>

datatype cookie_jar = CookieJar

datatype kwarg = KInt int | KBool bool | KStr string

text \<open>The credentials object of a service binding in \<^verbatim>\<open>VCAP_SERVICES\<close>: a
  dictionary of strings (or JSON nulls), or some other JSON value (null
  included).\<close>

datatype credentials = NonDict | Dict "(string \<times> string option) list"

text \<open>
  The attributes of a \<^verbatim>\<open>BaseService\<close> instance, \<^verbatim>\<open>self.x\<close> written
  \<open>self_x\<close>. \<^verbatim>\<open>vcap_service_credentials\<close> exists only once step 3 of the
  constructor has assigned it (outer \<open>None\<close>: never assigned).
\<close>

record service =
  self_url :: "string option"
  self_http_config :: "(string \<times> kwarg) list"
  self_jar :: "cookie_jar option"
  self_api_key :: "string option"
  self_username :: "string option"
  self_password :: "string option"
  self_default_headers :: "(string \<times> string) list option"
  self_iam_apikey :: "string option"
  self_iam_access_token :: "string option"
  self_iam_url :: "string option"
  self_token_manager :: "token_manager option"
  self_verify :: "bool option"
  self_user_agent_header :: "(string \<times> string) list option"
  self_vcap_service_credentials :: "credentials option option"

definition BEARER :: string where "BEARER = ''Bearer''"
definition ICP_PREFIX :: string where "ICP_PREFIX = ''icp-''"
definition APIKEY :: string where "APIKEY = ''apikey''"
definition IAM_ACCESS_TOKEN :: string where "IAM_ACCESS_TOKEN = ''iam_access_token''"
definition URL :: string where "URL = ''url''"
definition USERNAME :: string where "USERNAME = ''username''"
definition PASSWORD :: string where "PASSWORD = ''password''"
definition IAM_APIKEY :: string where "IAM_APIKEY = ''iam_apikey''"
definition IAM_URL :: string where "IAM_URL = ''iam_url''"

subsection \<open>Mutators\<close>

definition set_username_and_password :: "service \<Rightarrow> string option \<Rightarrow> string option \<Rightarrow> error + service" where
  "set_username_and_password self username password =
     (if has_bad_first_or_last_char username then Inl (ValueError BadUsername)
      else if has_bad_first_or_last_char password then Inl (ValueError BadPassword)
      else Inr (self\<lparr>self_username := username, self_password := password,
                      self_jar := Some CookieJar\<rparr>))"

definition set_token_manager :: "service \<Rightarrow> string option \<Rightarrow> string option \<Rightarrow> string option \<Rightarrow> error + service" where
  "set_token_manager self iam_apikey iam_access_token iam_url =
     (if has_bad_first_or_last_char iam_apikey then Inl (ValueError BadCredentials)
      else Inr (self\<lparr>self_token_manager := Some (IAMTokenManager iam_apikey iam_access_token iam_url),
                      self_iam_apikey := iam_apikey,
                      self_iam_access_token := iam_access_token,
                      self_iam_url := iam_url,
                      self_jar := Some CookieJar\<rparr>))"

definition set_iam_access_token :: "service \<Rightarrow> string option \<Rightarrow> service" where
  "set_iam_access_token self iam_access_token =
     self\<lparr>self_token_manager :=
            (case self_token_manager self of
               Some tm \<Rightarrow> Some (tm_set_access_token tm iam_access_token)
             | None \<Rightarrow> Some (IAMTokenManager None iam_access_token None)),
          self_iam_access_token := iam_access_token,
          self_jar := Some CookieJar\<rparr>"

definition set_iam_url :: "service \<Rightarrow> string option \<Rightarrow> service" where
  "set_iam_url self iam_url =
     self\<lparr>self_token_manager :=
            (case self_token_manager self of
               Some tm \<Rightarrow> Some (tm_set_iam_url tm iam_url)
             | None \<Rightarrow> Some (IAMTokenManager None None iam_url)),
          self_iam_url := iam_url,
          self_jar := Some CookieJar\<rparr>"

definition set_iam_apikey :: "service \<Rightarrow> string option \<Rightarrow> error + service" where
  "set_iam_apikey self iam_apikey =
     (if has_bad_first_or_last_char iam_apikey then Inl (ValueError BadCredentials)
      else Inr (self\<lparr>self_token_manager :=
                       (case self_token_manager self of
                          Some tm \<Rightarrow> Some (tm_set_iam_apikey tm iam_apikey)
                        | None \<Rightarrow> Some (IAMTokenManager iam_apikey None None)),
                     self_iam_apikey := iam_apikey,
                     self_jar := Some CookieJar\<rparr>))"

definition set_url :: "service \<Rightarrow> string option \<Rightarrow> error + service" where
  "set_url self url =
     (if has_bad_first_or_last_char url then Inl (ValueError BadURL)
      else Inr (self\<lparr>self_url := url\<rparr>))"

text \<open>\<^verbatim>\<open>set_default_headers\<close> and \<^verbatim>\<open>set_http_config\<close> raise \<^verbatim>\<open>TypeError\<close> for an
  argument that is not a dictionary; here the argument is one by its type.\<close>

definition set_default_headers :: "service \<Rightarrow> (string \<times> string) list \<Rightarrow> service" where
  "set_default_headers self headers = self\<lparr>self_default_headers := Some headers\<rparr>"

text \<open>The user-agent string is a \<^verbatim>\<open>str\<close> at the only call of this method. The
  method has no \<^verbatim>\<open>return\<close> statement: its value is \<^verbatim>\<open>None\<close>.\<close>

definition set_user_agent_header :: "service \<Rightarrow> string \<Rightarrow> service" where
  "set_user_agent_header self user_agent_string =
     self\<lparr>self_user_agent_header := Some [(''user-agent'', user_agent_string)]\<rparr>"

definition set_http_config :: "service \<Rightarrow> (string \<times> kwarg) list \<Rightarrow> service" where
  "set_http_config self http_config = self\<lparr>self_http_config := http_config\<rparr>"

definition disable_SSL_verification :: "service \<Rightarrow> service" where
  "disable_SSL_verification self = self\<lparr>self_verify := Some False\<rparr>"

section \<open>Credential resolution: the constructor\<close>

text \<open>
  What the constructor reads from outside the program. The credentials file:
  the file named by \<^verbatim>\<open>IBM_CREDENTIALS_FILE\<close> (\<open>None\<close>: the variable is not
  set; \<open>CannotOpen\<close>: \<^verbatim>\<open>open\<close> raises), else \<^verbatim>\<open>ibm-credentials.env\<close> in the home
  directory, else the one beside the package, each \<open>None\<close> when \<^verbatim>\<open>isfile\<close>
  is false, otherwise its lines. \<^verbatim>\<open>VCAP_SERVICES\<close>: not set, text that
  \<^verbatim>\<open>json.loads\<close> rejects, or an object from service names to lists of
  bindings, a binding giving its \<^verbatim>\<open>credentials\<close> entry if it has one. The
  version constant of \<^verbatim>\<open>version.py\<close> and the three values of \<^verbatim>\<open>platform\<close>
  are parameters as well.
\<close>

datatype opened = CannotOpen | Opened "string list"

datatype vcap = Malformed | Services "(string \<times> credentials option list) list"

record environment =
  env_IBM_CREDENTIALS_FILE :: "opened option"
  env_home_file :: "string list option"
  env_project_file :: "string list option"
  env_VCAP_SERVICES :: "vcap option"
  env_version :: string
  env_platform_system :: string
  env_platform_release :: string
  env_platform_python_version :: string

definition get_os_info :: "environment \<Rightarrow> string" where
  "get_os_info env =
     (let user_agent_string = [];
          user_agent_string = user_agent_string @ '' '' @ env_platform_system env;
          user_agent_string = user_agent_string @ '' '' @ env_platform_release env;
          user_agent_string = user_agent_string @ '' '' @ env_platform_python_version env
      in user_agent_string)"

text \<open>
  The \<^verbatim>\<open>username\<close> argument is compared with \<^verbatim>\<open>is\<close> (line 94), which is
  object identity: the argument is either the very string object
  \<^verbatim>\<open>BaseService.APIKEY\<close> (what a caller passes who writes that constant or the
  literal, which the interpreter interns) or another string object, whatever
  its characters (a string read from a file, an environment variable or a JSON
  document, or built at run time).
\<close>

datatype str_object = APIKEY_object | Other_object string

fun str_value :: "str_object \<Rightarrow> string" where
  "str_value APIKEY_object = APIKEY"
| "str_value (Other_object s) = s"

definition is_APIKEY :: "str_object \<Rightarrow> bool" where
  "is_APIKEY username = (username = APIKEY_object)"

definition and_then :: "error + 'a \<Rightarrow> ('a \<Rightarrow> error + 'b) \<Rightarrow> error + 'b" where
  "and_then r f = (case r of Inl e \<Rightarrow> Inl e | Inr x \<Rightarrow> f x)"

text \<open>Lines 67 to 85: the attributes, the check of the URL, the user-agent
  header. Line 85 assigns to \<^verbatim>\<open>self.user_agent_header\<close> the value that
  \<^verbatim>\<open>set_user_agent_header\<close> returns, which is \<^verbatim>\<open>None\<close>.\<close>

definition init_attributes :: "environment \<Rightarrow> string option \<Rightarrow> error + service" where
  "init_attributes env url =
     (let self = \<lparr>self_url = url, self_http_config = [], self_jar = None, self_api_key = None,
                   self_username = None, self_password = None, self_default_headers = None,
                   self_iam_apikey = None, self_iam_access_token = None, self_iam_url = None,
                   self_token_manager = None, self_verify = None,
                   self_user_agent_header = None, self_vcap_service_credentials = None\<rparr>
      in if has_bad_first_or_last_char (self_url self) then Inl (ValueError BadURL)
         else let user_agent_string = ''ibm-python-sdk-core-'' @ env_version env @ get_os_info env;
                  self = set_user_agent_header self user_agent_string
              in Inr (self\<lparr>self_user_agent_header := None\<rparr>))"

text \<open>Lines 87 to 102: credentials passed to the constructor.\<close>

definition credentials_from_constructor ::
  "service \<Rightarrow> str_object option \<Rightarrow> string option \<Rightarrow> string option \<Rightarrow> string option \<Rightarrow>
   string option \<Rightarrow> string option \<Rightarrow> error + service" where
  "credentials_from_constructor self username password api_key iam_apikey iam_access_token iam_url =
     (case api_key of
        Some key \<Rightarrow>
          if startswith key ICP_PREFIX then set_username_and_password self (Some APIKEY) api_key
          else set_token_manager self api_key iam_access_token iam_url
      | None \<Rightarrow>
         (case (username, password) of
            (Some user, Some pw) \<Rightarrow>
              if is_APIKEY user \<and> \<not> startswith pw ICP_PREFIX
              then set_token_manager self password iam_access_token iam_url
              else set_username_and_password self (Some (str_value user)) password
          | _ \<Rightarrow>
              if iam_access_token \<noteq> None \<or> iam_apikey \<noteq> None then
                if truthy iam_apikey \<and> startswith (the iam_apikey) ICP_PREFIX
                then set_username_and_password self (Some APIKEY) iam_apikey
                else set_token_manager self iam_apikey iam_access_token iam_url
              else Inr self))"

text \<open>Lines 161 to 174.\<close>

definition set_credential_based_on_type :: "service \<Rightarrow> string \<Rightarrow> string \<Rightarrow> string \<Rightarrow> error + service" where
  "set_credential_based_on_type self service_name key val =
     (if str_in service_name key then
        if str_in APIKEY key then set_iam_apikey self (Some val)
        else if str_in URL key then set_url self (Some val)
        else if str_in USERNAME key then Inr (self\<lparr>self_username := Some val\<rparr>)
        else if str_in PASSWORD key then Inr (self\<lparr>self_password := Some val\<rparr>)
        else if str_in IAM_APIKEY key then set_iam_apikey self (Some val)
        else if str_in IAM_URL key then Inr (set_iam_url self (Some val))
        else Inr self
      else Inr self)"

text \<open>Lines 155 to 159: the loop over the lines of the file.\<close>

fun read_credential_lines :: "service \<Rightarrow> string \<Rightarrow> char \<Rightarrow> string list \<Rightarrow> error + service" where
  "read_credential_lines self service_name separator [] = Inr self"
| "read_credential_lines self service_name separator (line # fp) =
     (let key_val = split separator (strip line)
      in if length key_val = 2 then
           (case set_credential_based_on_type self service_name (lower (key_val ! 0)) (key_val ! 1) of
              Inl e \<Rightarrow> Inl e
            | Inr self' \<Rightarrow> read_credential_lines self' service_name separator fp)
         else read_credential_lines self service_name separator fp)"

text \<open>Lines 132 to 159.\<close>

definition load_from_credential_file :: "environment \<Rightarrow> service \<Rightarrow> string \<Rightarrow> char \<Rightarrow> error + service" where
  "load_from_credential_file env self service_name separator =
     (let credential_file_path = env_IBM_CREDENTIALS_FILE env;
          credential_file_path =
            (if credential_file_path = None then map_option Opened (env_home_file env)
             else credential_file_path);
          credential_file_path =
            (if credential_file_path = None then map_option Opened (env_project_file env)
             else credential_file_path)
      in case credential_file_path of
           None \<Rightarrow> Inr self
         | Some CannotOpen \<Rightarrow> Inl IOError
         | Some (Opened fp) \<Rightarrow> read_credential_lines self service_name separator fp)"

text \<open>Lines 176 to 183. A service name that is not in the document falls off
  the end of the function, which returns \<^verbatim>\<open>None\<close> then too.\<close>

definition load_from_vcap_services :: "environment \<Rightarrow> string \<Rightarrow> error + credentials option" where
  "load_from_vcap_services env service_name =
     (case env_VCAP_SERVICES env of
        None \<Rightarrow> Inr None
      | Some Malformed \<Rightarrow> Inl JSONDecodeError
      | Some (Services services) \<Rightarrow>
          (case map_of services service_name of
             None \<Rightarrow> Inr None
           | Some [] \<Rightarrow> Inl IndexError
           | Some (None # _) \<Rightarrow> Inl KeyError
           | Some (Some c # _) \<Rightarrow> Inr (Some c)))"

text \<open>Lines 104 to 107: credentials from the credentials file.\<close>

definition credentials_from_file :: "environment \<Rightarrow> service \<Rightarrow> string option \<Rightarrow> error + service" where
  "credentials_from_file env self display_name =
     (if truthy display_name \<and> \<not> truthy (self_username self) \<and> self_token_manager self = None then
        let service_name = lower (replace (the display_name) CHR '' '' CHR ''_'')
        in load_from_credential_file env self service_name CHR ''=''
      else Inr self)"

text \<open>One statement of the form \<^verbatim>\<open>if KEY in creds: setter(creds.get(KEY))\<close>.\<close>

definition if_present ::
  "(string \<times> string option) list \<Rightarrow> string \<Rightarrow> (service \<Rightarrow> string option \<Rightarrow> error + service) \<Rightarrow>
   service \<Rightarrow> error + service" where
  "if_present creds name setter self =
     (case map_of creds name of
        Some v \<Rightarrow> setter self v
      | None \<Rightarrow> Inr self)"

text \<open>Lines 115 to 125: the entries of the credentials dictionary. The URL is
  read with \<^verbatim>\<open>creds[URL]\<close>, which raises when there is none; username and
  password are assigned as they are.\<close>

definition apply_vcap_credentials :: "service \<Rightarrow> (string \<times> string option) list \<Rightarrow> error + service" where
  "apply_vcap_credentials self creds =
     (case map_of creds URL of
        None \<Rightarrow> Inl KeyError
      | Some url \<Rightarrow>
          and_then (if_present creds USERNAME (\<lambda>self v. Inr (self\<lparr>self_username := v\<rparr>))
                      (self\<lparr>self_url := url\<rparr>))
          (\<lambda>self. and_then (if_present creds PASSWORD
                               (\<lambda>self v. Inr (self\<lparr>self_password := v\<rparr>)) self)
          (\<lambda>self. and_then (if_present creds APIKEY set_iam_apikey self)
          (\<lambda>self. and_then (if_present creds IAM_APIKEY set_iam_apikey self)
          (\<lambda>self. if_present creds IAM_ACCESS_TOKEN
                     (\<lambda>self v. Inr (set_iam_access_token self v)) self)))))"

text \<open>Lines 109 to 125: credentials from \<^verbatim>\<open>VCAP_SERVICES\<close>.\<close>

definition credentials_from_vcap :: "environment \<Rightarrow> service \<Rightarrow> string \<Rightarrow> bool \<Rightarrow> error + service" where
  "credentials_from_vcap env self vcap_services_name use_vcap_services =
     (if use_vcap_services \<and> \<not> truthy (self_username self) \<and> self_token_manager self = None then
        and_then (load_from_vcap_services env vcap_services_name)
          (\<lambda>loaded.
             let self = self\<lparr>self_vcap_service_credentials := Some loaded\<rparr>
             in case loaded of
                  Some (Dict creds) \<Rightarrow> apply_vcap_credentials self creds
                | _ \<Rightarrow> Inr self)
      else Inr self)"

text \<open>Lines 127 to 130.\<close>

definition check_credentials :: "service \<Rightarrow> error + service" where
  "check_credentials self =
     (if (self_username self = None \<or> self_password self = None) \<and> self_token_manager self = None
      then Inl (ValueError NoCredentials)
      else Inr self)"

text \<open>\<^verbatim>\<open>BaseService.__init__\<close>, with its arguments in the order of the source.\<close>

definition BaseService_init ::
  "environment \<Rightarrow> string \<Rightarrow> string option \<Rightarrow> str_object option \<Rightarrow> string option \<Rightarrow> bool \<Rightarrow>
   string option \<Rightarrow> string option \<Rightarrow> string option \<Rightarrow> string option \<Rightarrow> string option \<Rightarrow>
   error + service" where
  "BaseService_init env vcap_services_name url username password use_vcap_services
                    api_key iam_apikey iam_access_token iam_url display_name =
     and_then (init_attributes env url)
       (\<lambda>self. and_then (credentials_from_constructor self username password api_key iam_apikey
                                                        iam_access_token iam_url)
       (\<lambda>self. and_then (credentials_from_file env self display_name)
       (\<lambda>self. and_then (credentials_from_vcap env self vcap_services_name use_vcap_services)
          check_credentials)))"

section \<open>The request dispatcher\<close>

text \<open>
  \<^verbatim>\<open>requests.structures.CaseInsensitiveDict\<close>: a dictionary that files every
  entry under its lower-cased key and remembers the key as last written.
  Built from \<^verbatim>\<open>None\<close> it is empty.
\<close>

type_synonym cidict = "string \<rightharpoonup> (string \<times> string)"

definition ci_setitem :: "cidict \<Rightarrow> string \<Rightarrow> string \<Rightarrow> cidict" where
  "ci_setitem d k v = d(lower k \<mapsto> (k, v))"

definition ci_update :: "cidict \<Rightarrow> (string \<times> string) list \<Rightarrow> cidict" where
  "ci_update d kvs = foldl (\<lambda>d (k, v). ci_setitem d k v) d kvs"

definition ci_getitem :: "cidict \<Rightarrow> string \<Rightarrow> string option" where
  "ci_getitem d k = map_option snd (d (lower k))"

definition CaseInsensitiveDict :: "(string \<times> string) list option \<Rightarrow> cidict" where
  "CaseInsensitiveDict data = ci_update Map.empty (case data of None \<Rightarrow> [] | Some d \<Rightarrow> d)"

text \<open>The arguments of the call \<^verbatim>\<open>requests.request(...)\<close> of lines 319 to 323.\<close>

record http_call =
  call_method :: string
  call_url :: string
  call_cookies :: "cookie_jar option"
  call_auth :: "(string \<times> string) option"
  call_headers :: cidict
  call_params :: "(string \<times> string) list option"
  call_data :: body
  call_files :: "(string \<times> string) list option"
  call_kwargs :: "string \<rightharpoonup> kwarg"

text \<open>
  Modelled from the spec: the class \<^verbatim>\<open>DetailedResponse\<close> is imported from
  \<^verbatim>\<open>detailed_response.py\<close>, which is not among the sources. The
  specification (3): a body (parsed JSON, the raw response, or absent), the
  response headers and the status code; these are the three arguments of
  lines 328 to 336.
\<close>

datatype result = ResultNone | ResultJson json | ResultResponse response

datatype detailed_response = DetailedResponse result "(string \<times> string) list" int

definition truthy_data :: "body \<Rightarrow> bool" where
  "truthy_data d =
     (case d of
        NoData \<Rightarrow> False
      | StrData s \<Rightarrow> s \<noteq> []
      | BytesData s \<Rightarrow> s \<noteq> []
      | DictData kvs \<Rightarrow> kvs \<noteq> [])"

text \<open>
  Line 301 is \<^verbatim>\<open>data = json.dumps(json)\<close>. The module is imported under the
  name \<^verbatim>\<open>json_import\<close> (line 21); inside \<^verbatim>\<open>request\<close> the name \<^verbatim>\<open>json\<close> is the
  parameter, the body to send. \<^verbatim>\<open>json.dumps\<close> is therefore the attribute
  \<^verbatim>\<open>dumps\<close> of a dictionary, list, string, number or boolean, none of which
  has one: the lookup raises \<^verbatim>\<open>AttributeError\<close>.
\<close>

definition getattr_dumps :: "json \<Rightarrow> error + (json \<Rightarrow> string)" where
  "getattr_dumps j = Inl AttributeError"

text \<open>
  Lines 279 to 287: the headers of the request. \<^verbatim>\<open>cleanup_values\<close> (of
  \<^verbatim>\<open>utils.py\<close>, not among the sources, and not described by the
  specification) is a parameter.
\<close>

definition merge_headers ::
  "((string \<times> string) list \<Rightarrow> (string \<times> string) list) \<Rightarrow> service \<Rightarrow> bool \<Rightarrow>
   (string \<times> string option) list option \<Rightarrow> cidict" where
  "merge_headers cleanup_values self accept_json headers =
     (let input_headers = (case headers of
                             None \<Rightarrow> []
                           | Some h \<Rightarrow> if h \<noteq> [] then remove_null_values h else []);
          input_headers = cleanup_values input_headers;
          headers = CaseInsensitiveDict (self_user_agent_header self);
          headers = (case self_default_headers self of
                       Some default_headers \<Rightarrow> ci_update headers default_headers
                     | None \<Rightarrow> headers);
          headers = (if accept_json then ci_setitem headers ''accept'' ''application/json''
                     else headers)
      in ci_update headers input_headers)"

text \<open>
  Lines 278 to 317: everything up to the call of the transport.
  \<^verbatim>\<open>get_token\<close> of the token manager is a parameter; \<open>python3\<close> is the test
  \<^verbatim>\<open>sys.version_info >= (3, 0)\<close>.
\<close>

definition request_prepare ::
  "((string \<times> string) list \<Rightarrow> (string \<times> string) list) \<Rightarrow> (token_manager \<Rightarrow> error + string) \<Rightarrow> bool \<Rightarrow>
   service \<Rightarrow> string \<Rightarrow> string \<Rightarrow> bool \<Rightarrow> (string \<times> string option) list option \<Rightarrow>
   (string \<times> string option) list option \<Rightarrow> json \<Rightarrow> body \<Rightarrow> (string \<times> string option) list option \<Rightarrow>
   (string \<times> kwarg) list \<Rightarrow> error + http_call" where
  "request_prepare cleanup_values get_token python3 self method url accept_json headers params
                   json data files kwargs =
     (case self_url self of
        None \<Rightarrow> Inl TypeError
      | Some base \<Rightarrow>
     (let full_url = base @ url;
          headers = merge_headers cleanup_values self accept_json headers;
          params = map_option remove_null_values params;
          params = map_option cleanup_values params;
          json = remove_null_values_json json;
          data = remove_null_values_data data;
          files = map_option remove_null_values files;
          data = (case data of
                    StrData s \<Rightarrow> if python3 then BytesData s else data
                  | _ \<Rightarrow> data)
      in and_then
           (if \<not> truthy_data data \<and> json \<noteq> JNull then
              and_then (getattr_dumps json)
                (\<lambda>dumps. Inr (StrData (dumps json),
                               ci_update headers [(''content-type'', ''application/json'')]))
            else Inr (data, headers))
        (\<lambda>(data, headers).
      and_then
           (case self_token_manager self of
              Some token_manager \<Rightarrow>
                and_then (get_token token_manager)
                  (\<lambda>access_token.
                     Inr (ci_setitem headers ''Authorization'' (BEARER @ '' '' @ access_token)))
            | None \<Rightarrow> Inr headers)
        (\<lambda>headers.
       let auth = (if truthy (self_username self) \<and> truthy (self_password self)
                   then Some (the (self_username self), the (self_password self))
                   else None);
           kwargs = [''timeout'' \<mapsto> KInt 60] ++ map_of kwargs;
           kwargs = kwargs ++ map_of (self_http_config self);
           kwargs = (case self_verify self of
                       Some v \<Rightarrow> kwargs(''verify'' \<mapsto> KBool v)
                     | None \<Rightarrow> kwargs)
       in Inr \<lparr>call_method = method, call_url = full_url, call_cookies = self_jar self,
               call_auth = auth, call_headers = headers, call_params = params,
               call_data = data, call_files = files, call_kwargs = kwargs\<rparr>))))"

text \<open>Lines 325 to 342: the response becomes a result or an exception.\<close>

definition request_respond :: "string \<Rightarrow> bool \<Rightarrow> response \<Rightarrow> error + detailed_response" where
  "request_respond method accept_json response =
     (if 200 \<le> status_code response \<and> status_code response \<le> 299 then
        if status_code response = 204 \<or> method = ''HEAD'' then
          Inr (DetailedResponse ResultNone (response_headers response) (status_code response))
        else if accept_json then
          (case response_json response of
             None \<Rightarrow>
               Inr (DetailedResponse ResultNone (response_headers response) (status_code response))
           | Some parsed \<Rightarrow>
               Inr (DetailedResponse (ResultJson parsed) (response_headers response)
                      (status_code response)))
        else Inr (DetailedResponse (ResultResponse response) (response_headers response)
                    (status_code response))
      else
        let error_message = None;
            error_message = (if status_code response = 401
                             then Some ''Unauthorized: Access is denied due to invalid credentials''
                             else error_message)
        in Inl (ApiException (status_code response) error_message response))"

text \<open>\<^verbatim>\<open>BaseService.request\<close>; \<open>transport\<close> is \<^verbatim>\<open>requests.request\<close>.\<close>

definition request ::
  "((string \<times> string) list \<Rightarrow> (string \<times> string) list) \<Rightarrow> (token_manager \<Rightarrow> error + string) \<Rightarrow>
   (http_call \<Rightarrow> error + response) \<Rightarrow> bool \<Rightarrow>
   service \<Rightarrow> string \<Rightarrow> string \<Rightarrow> bool \<Rightarrow> (string \<times> string option) list option \<Rightarrow>
   (string \<times> string option) list option \<Rightarrow> json \<Rightarrow> body \<Rightarrow> (string \<times> string option) list option \<Rightarrow>
   (string \<times> kwarg) list \<Rightarrow> error + detailed_response" where
  "request cleanup_values get_token transport python3 self method url accept_json headers params
           json data files kwargs =
     and_then (request_prepare cleanup_values get_token python3 self method url accept_json
                 headers params json data files kwargs)
       (\<lambda>call. and_then (transport call) (request_respond method accept_json))"

section \<open>Vocabulary of the statements\<close>

text \<open>The constructor up to line 102: the attributes and the credentials passed as
  arguments, before the credentials file and \<^verbatim>\<open>VCAP_SERVICES\<close> are looked at.\<close>

definition explicit_credentials ::
  "environment \<Rightarrow> string option \<Rightarrow> str_object option \<Rightarrow> string option \<Rightarrow> string option \<Rightarrow>
   string option \<Rightarrow> string option \<Rightarrow> string option \<Rightarrow> error + service" where
  "explicit_credentials env url username password api_key iam_apikey iam_access_token iam_url =
     and_then (init_attributes env url)
       (\<lambda>self. credentials_from_constructor self username password api_key iam_apikey
                  iam_access_token iam_url)"

text \<open>The attributes as lines 67 to 85 leave them.\<close>

definition fresh_service :: "string option \<Rightarrow> service" where
  "fresh_service url =
     \<lparr>self_url = url, self_http_config = [], self_jar = None, self_api_key = None,
      self_username = None, self_password = None, self_default_headers = None,
      self_iam_apikey = None, self_iam_access_token = None, self_iam_url = None,
      self_token_manager = None, self_verify = None,
      self_user_agent_header = None, self_vcap_service_credentials = None\<rparr>"

text \<open>The value that a dictionary of headers gives to a header name when names are
  compared without regard to case: that of the last such entry.\<close>

definition header_lookup :: "(string \<times> string) list \<Rightarrow> string \<Rightarrow> string option" where
  "header_lookup kvs k = map_of (rev (map (\<lambda>(k', v). (lower k', v)) kvs)) (lower k)"

section \<open>Example inputs\<close>

definition example_environment :: environment where
  "example_environment =
     \<lparr>env_IBM_CREDENTIALS_FILE = None, env_home_file = None, env_project_file = None,
      env_VCAP_SERVICES = None, env_version = ''0.5.1'', env_platform_system = ''Linux'',
      env_platform_release = ''5.4.0'', env_platform_python_version = ''3.7.3''\<rparr>"

text \<open>A service binding that carries a username, a password and an API key.\<close>

definition example_vcap_environment :: environment where
  "example_vcap_environment =
     example_environment\<lparr>env_VCAP_SERVICES :=
       Some (Services [(''svc'', [Some (Dict [(''url'', Some ''https://vcap.test''),
                                              (''username'', Some ''bob''),
                                              (''password'', Some ''pw''),
                                              (''apikey'', Some ''key'')])])])\<rparr>"

text \<open>A credentials file in the home directory, of two lines.\<close>

definition example_file_environment :: environment where
  "example_file_environment =
     example_environment\<lparr>env_home_file :=
       Some [''MY_SERVICE_APIKEY=filekey'' @ [CHR 0x0A],
             ''MY_SERVICE_IAM_URL=https://iam.test/token'' @ [CHR 0x0A]]\<rparr>"



definition example_service :: service where
  "example_service =
     \<lparr>self_url = Some ''https://api.test'', self_http_config = [], self_jar = Some CookieJar,
      self_api_key = None, self_username = Some ''bob'', self_password = Some ''pw'',
      self_default_headers = None, self_iam_apikey = None, self_iam_access_token = None,
      self_iam_url = None, self_token_manager = None, self_verify = None,
      self_user_agent_header = None, self_vcap_service_credentials = None\<rparr>"

definition example_vcap_service :: service where
  "example_vcap_service =
     \<lparr>self_url = Some ''https://vcap.test'', self_http_config = [], self_jar = Some CookieJar,
      self_api_key = None, self_username = Some ''bob'', self_password = Some ''pw'',
      self_default_headers = None, self_iam_apikey = Some ''key'', self_iam_access_token = None,
      self_iam_url = None,
      self_token_manager = Some \<lparr>tm_iam_apikey = Some ''key'', tm_iam_access_token = None,
                                  tm_iam_url = None\<rparr>,
      self_verify = None, self_user_agent_header = None,
      self_vcap_service_credentials =
        Some (Some (Dict [(''url'', Some ''https://vcap.test''), (''username'', Some ''bob''),
                          (''password'', Some ''pw''), (''apikey'', Some ''key'')]))\<rparr>"

definition example_key_service :: service where
  "example_key_service =
     \<lparr>self_url = Some ''https://api.test'', self_http_config = [], self_jar = Some CookieJar,
      self_api_key = None, self_username = None, self_password = None,
      self_default_headers = None, self_iam_apikey = Some ''argkey'', self_iam_access_token = None,
      self_iam_url = None,
      self_token_manager = Some \<lparr>tm_iam_apikey = Some ''argkey'', tm_iam_access_token = None,
                                  tm_iam_url = None\<rparr>,
      self_verify = None, self_user_agent_header = None, self_vcap_service_credentials = None\<rparr>"

definition example_file_service :: service where
  "example_file_service =
     \<lparr>self_url = Some ''https://iam.test/token'', self_http_config = [],
      self_jar = Some CookieJar, self_api_key = None, self_username = None,
      self_password = None, self_default_headers = None, self_iam_apikey = Some ''filekey'',
      self_iam_access_token = None, self_iam_url = None,
      self_token_manager = Some \<lparr>tm_iam_apikey = Some ''filekey'', tm_iam_access_token = None,
                                  tm_iam_url = None\<rparr>,
      self_verify = None, self_user_agent_header = None, self_vcap_service_credentials = None\<rparr>"

definition example_basic_service :: service where
  "example_basic_service =
     \<lparr>self_url = Some ''https://api.test'', self_http_config = [], self_jar = Some CookieJar,
      self_api_key = None, self_username = Some ''apikey'', self_password = Some ''secret'',
      self_default_headers = None, self_iam_apikey = None, self_iam_access_token = None,
      self_iam_url = None, self_token_manager = None, self_verify = None,
      self_user_agent_header = None, self_vcap_service_credentials = None\<rparr>"

definition example_response :: "int \<Rightarrow> response" where
  "example_response code =
     \<lparr>status_code = code, response_headers = [(''content-length'', ''0'')],
      response_json = None, response_text = []\<rparr>"

definition example_get_token :: "token_manager \<Rightarrow> error + string" where
  "example_get_token tm = Inr ''tok''"

section \<open>Sequencing and the steps of the constructor\<close>

lemma and_then_Inl [simp]: "and_then (Inl e) f = Inl e"
  by (simp add: and_then_def)

lemma and_then_Inr [simp]: "and_then (Inr x) f = f x"
  by (simp add: and_then_def)

lemma and_then_eq_Inr: "and_then r f = Inr y \<longleftrightarrow> (\<exists>x. r = Inr x \<and> f x = Inr y)"
  by (cases r) simp_all

text \<open>Lines 67 to 85 do not depend on the environment: the user-agent string is
  computed and then lost.\<close>

lemma init_attributes_eq:
  "init_attributes env url =
     (if has_bad_first_or_last_char url then Inl (ValueError BadURL) else Inr (fresh_service url))"
  by (simp add: init_attributes_def fresh_service_def set_user_agent_header_def Let_def)

lemma BaseService_init_explicit:
  "BaseService_init env vcap_services_name url username password use_vcap_services
     api_key iam_apikey iam_access_token iam_url display_name =
   and_then (explicit_credentials env url username password api_key iam_apikey iam_access_token iam_url)
     (\<lambda>self. and_then (credentials_from_file env self display_name)
     (\<lambda>self. and_then (credentials_from_vcap env self vcap_services_name use_vcap_services)
        check_credentials))"
  by (simp add: BaseService_init_def explicit_credentials_def and_then_def split: sum.split)

lemma explicit_credentials_env:
  "explicit_credentials env url username password api_key iam_apikey iam_access_token iam_url =
   explicit_credentials env' url username password api_key iam_apikey iam_access_token iam_url"
  by (simp add: explicit_credentials_def init_attributes_eq)

lemma set_username_and_password_Inr:
  "set_username_and_password self u p = Inr s \<Longrightarrow>
     s = self\<lparr>self_username := u, self_password := p, self_jar := Some CookieJar\<rparr>"
  by (simp add: set_username_and_password_def split: if_splits)

lemma set_token_manager_Inr:
  "set_token_manager self k t i = Inr s \<Longrightarrow>
     s = self\<lparr>self_token_manager := Some (IAMTokenManager k t i), self_iam_apikey := k,
              self_iam_access_token := t, self_iam_url := i, self_jar := Some CookieJar\<rparr>"
  by (simp add: set_token_manager_def split: if_splits)

text \<open>After step 1 the service has a username and a password and no token
  manager, or a token manager and neither username nor password, or none of
  the three; an API key argument always leaves one of the first two.\<close>

lemma credentials_from_constructor_cases:
  assumes "credentials_from_constructor self username password api_key iam_apikey
             iam_access_token iam_url = Inr s"
  shows "(\<exists>u p. set_username_and_password self (Some u) (Some p) = Inr s
                \<and> (api_key \<noteq> None \<longrightarrow> u = APIKEY))
       \<or> (\<exists>k t i. set_token_manager self k t i = Inr s)
       \<or> (s = self \<and> api_key = None)"
  using assms
  by (auto simp add: credentials_from_constructor_def truthy_def
      split: option.splits if_splits prod.splits)

lemma explicit_credentials_modes:
  assumes "explicit_credentials env url username password api_key iam_apikey iam_access_token iam_url = Inr s"
  shows "self_vcap_service_credentials s = None"
    and "(self_username s \<noteq> None \<and> self_password s \<noteq> None \<and> self_token_manager s = None)
       \<or> (self_username s = None \<and> self_password s = None \<and> self_token_manager s \<noteq> None)
       \<or> (self_username s = None \<and> self_password s = None \<and> self_token_manager s = None)"
    and "api_key \<noteq> None \<Longrightarrow> truthy (self_username s) \<or> self_token_manager s \<noteq> None"
    and "self_user_agent_header s = None"
proof -
  from assms have c: "credentials_from_constructor (fresh_service url) username password api_key
                        iam_apikey iam_access_token iam_url = Inr s"
    by (simp add: explicit_credentials_def init_attributes_eq split: if_splits)
  note cases = credentials_from_constructor_cases [OF c]
  show "self_vcap_service_credentials s = None"
    using cases
    by (auto simp add: fresh_service_def
        dest!: set_username_and_password_Inr set_token_manager_Inr)
  show "(self_username s \<noteq> None \<and> self_password s \<noteq> None \<and> self_token_manager s = None)
       \<or> (self_username s = None \<and> self_password s = None \<and> self_token_manager s \<noteq> None)
       \<or> (self_username s = None \<and> self_password s = None \<and> self_token_manager s = None)"
    using cases
    by (auto simp add: fresh_service_def
        dest!: set_username_and_password_Inr set_token_manager_Inr)
  show "self_user_agent_header s = None"
    using cases
    by (auto simp add: fresh_service_def
        dest!: set_username_and_password_Inr set_token_manager_Inr)
  show "truthy (self_username s) \<or> self_token_manager s \<noteq> None" if "api_key \<noteq> None"
    using cases that
    by (auto simp add: fresh_service_def truthy_def APIKEY_def
        dest!: set_username_and_password_Inr set_token_manager_Inr)
qed

text \<open>Once step 1 has left a non-empty username or a token manager, the tests of
  lines 105 and 110 fail, and the constructor returns the service of step 1,
  whatever the environment holds.\<close>

lemma resolved_skips_sources:
  assumes "explicit_credentials env url username password api_key iam_apikey iam_access_token iam_url = Inr s"
    and "truthy (self_username s) \<or> self_token_manager s \<noteq> None"
  shows "BaseService_init env' vcap_services_name url username password use_vcap_services
           api_key iam_apikey iam_access_token iam_url display_name = Inr s"
proof -
  have e: "explicit_credentials env' url username password api_key iam_apikey iam_access_token iam_url = Inr s"
    using assms(1) explicit_credentials_env by metis
  have f: "credentials_from_file env' s display_name = Inr s"
    using assms(2) by (auto simp add: credentials_from_file_def)
  have v: "credentials_from_vcap env' s vcap_services_name use_vcap_services = Inr s"
    using assms(2) by (auto simp add: credentials_from_vcap_def)
  have c: "check_credentials s = Inr s"
    using assms(2) explicit_credentials_modes(2) [OF assms(1)]
    by (auto simp add: check_credentials_def truthy_def)
  show ?thesis
    by (simp add: BaseService_init_explicit e f v c)
qed

section \<open>The example constructions\<close>

lemma vcap_construction:
  "BaseService_init example_vcap_environment ''svc'' (Some ''https://api.test'') None None True
     None None None None None = Inr example_vcap_service"
  by code_simp

lemma key_construction:
  "BaseService_init example_file_environment ''svc'' (Some ''https://api.test'') None None True
     (Some ''argkey'') None None None (Some ''My Service'') = Inr example_key_service"
  by code_simp

lemma key_explicit:
  "explicit_credentials example_environment (Some ''https://api.test'') None None
     (Some ''argkey'') None None None = Inr example_key_service"
  by code_simp

lemma file_line_1:
  "split CHR ''='' (strip (''MY_SERVICE_APIKEY=filekey'' @ [CHR 0x0A]))
     = [''MY_SERVICE_APIKEY'', ''filekey'']"
  by code_simp

lemma file_line_2:
  "split CHR ''='' (strip (''MY_SERVICE_IAM_URL=https://iam.test/token'' @ [CHR 0x0A]))
     = [''MY_SERVICE_IAM_URL'', ''https://iam.test/token'']"
  by code_simp

lemma file_keys:
  "lower ''MY_SERVICE_APIKEY'' = ''my_service_apikey''"
  "lower ''MY_SERVICE_IAM_URL'' = ''my_service_iam_url''"
  "lower (replace ''My Service'' CHR '' '' CHR ''_'') = ''my_service''"
  by code_simp+

lemma file_key_tests:
  "str_in ''my_service'' ''my_service_apikey''"
  "str_in APIKEY ''my_service_apikey''"
  "str_in ''my_service'' ''my_service_iam_url''"
  "\<not> str_in APIKEY ''my_service_iam_url''"
  "str_in URL ''my_service_iam_url''"
  "str_in IAM_URL ''my_service_iam_url''"
  by code_simp+

lemma file_values:
  "\<not> has_bad_first_or_last_char (Some ''filekey'')"
  "\<not> has_bad_first_or_last_char (Some ''https://iam.test/token'')"
  "\<not> has_bad_first_or_last_char (Some ''https://api.test'')"
  by code_simp+

lemma file_lines_read:
  "read_credential_lines (fresh_service (Some ''https://api.test'')) ''my_service'' CHR ''=''
     [''MY_SERVICE_APIKEY=filekey'' @ [CHR 0x0A],
      ''MY_SERVICE_IAM_URL=https://iam.test/token'' @ [CHR 0x0A]]
   = Inr example_file_service"
  by (simp add: file_line_1 file_line_2 file_keys file_key_tests file_values
        set_credential_based_on_type_def set_iam_apikey_def set_url_def
        fresh_service_def example_file_service_def IAMTokenManager_def
      del: append.simps str_in.simps split.simps)

lemma file_construction:
  "BaseService_init example_file_environment ''svc'' (Some ''https://api.test'') None None False
     None None None None (Some ''My Service'') = Inr example_file_service"
proof -
  have e: "credentials_from_constructor (fresh_service (Some ''https://api.test''))
             None None None None None None = Inr (fresh_service (Some ''https://api.test''))"
    by (simp add: credentials_from_constructor_def)
  have f: "credentials_from_file example_file_environment (fresh_service (Some ''https://api.test''))
             (Some ''My Service'') = Inr example_file_service"
    using file_lines_read
    by (simp add: credentials_from_file_def load_from_credential_file_def truthy_def
          example_file_environment_def example_environment_def file_keys fresh_service_def
        del: append.simps str_in.simps split.simps)
  have v: "credentials_from_vcap example_file_environment example_file_service ''svc'' False
             = Inr example_file_service"
    by (simp add: credentials_from_vcap_def)
  have c: "check_credentials example_file_service = Inr example_file_service"
    by (simp add: check_credentials_def example_file_service_def)
  show ?thesis
    by (simp add: BaseService_init_def init_attributes_eq file_values e f v c)
qed

lemma example_service_prepares:
  "\<exists>call. request_prepare (\<lambda>d. d) (\<lambda>tm. Inl TokenError) True example_service
            ''GET'' ''/v1/items'' True None None JNull NoData None [] = Inr call"
  by (simp add: request_prepare_def example_service_def truthy_def
        remove_null_values_json_def remove_null_values_data_def truthy_data_def)

section \<open>The empty username\<close>

text \<open>
  A username that is the empty string is not \<^verbatim>\<open>None\<close>, so the last test of the
  constructor (line 127) accepts it with a password and no token manager. It
  is false where the code tests the username itself: for lines 105 and 110 it
  is not set, so the credentials file is still read, and for line 308 there
  is no basic authentication to send.
\<close>

lemma file_lines_read_from:
  assumes "self_token_manager self = None"
  shows "read_credential_lines self ''my_service'' CHR ''=''
     [''MY_SERVICE_APIKEY=filekey'' @ [CHR 0x0A],
      ''MY_SERVICE_IAM_URL=https://iam.test/token'' @ [CHR 0x0A]]
   = Inr (self\<lparr>self_token_manager := Some (IAMTokenManager (Some ''filekey'') None None),
                self_iam_apikey := Some ''filekey'', self_jar := Some CookieJar,
                self_url := Some ''https://iam.test/token''\<rparr>)"
  using assms
  by (simp add: file_line_1 file_line_2 file_keys file_key_tests file_values
        set_credential_based_on_type_def set_iam_apikey_def set_url_def
      del: append.simps str_in.simps split.simps)

lemma empty_username_construction:
  "BaseService_init example_environment ''svc'' (Some ''https://api.test'')
     (Some (Other_object [])) (Some ''pw'') False None None None None None
   = Inr (example_service\<lparr>self_username := Some []\<rparr>)"
  by code_simp

lemma empty_username_reads_file:
  "BaseService_init example_file_environment ''svc'' (Some ''https://api.test'')
     (Some (Other_object [])) (Some ''pw'') False None None None None (Some ''My Service'')
   = Inr (example_file_service\<lparr>self_username := Some [], self_password := Some ''pw''\<rparr>)"
proof -
  let ?s1 = "(fresh_service (Some ''https://api.test''))
               \<lparr>self_username := Some [], self_password := Some ''pw'', self_jar := Some CookieJar\<rparr>"
  have e: "credentials_from_constructor (fresh_service (Some ''https://api.test''))
             (Some (Other_object [])) (Some ''pw'') None None None None = Inr ?s1"
    by (simp add: credentials_from_constructor_def is_APIKEY_def set_username_and_password_def
          has_bad_first_or_last_char_def bad_chars_def startswith_def endswith_def)
  have f: "credentials_from_file example_file_environment ?s1 (Some ''My Service'')
             = Inr (example_file_service\<lparr>self_username := Some [], self_password := Some ''pw''\<rparr>)"
    using file_lines_read_from [of ?s1]
    by (simp add: credentials_from_file_def load_from_credential_file_def truthy_def
          example_file_environment_def example_environment_def file_keys fresh_service_def
          example_file_service_def IAMTokenManager_def
        del: append.simps str_in.simps split.simps)
  have v: "credentials_from_vcap example_file_environment
             (example_file_service\<lparr>self_username := Some [], self_password := Some ''pw''\<rparr>)
             ''svc'' False
           = Inr (example_file_service\<lparr>self_username := Some [], self_password := Some ''pw''\<rparr>)"
    by (simp add: credentials_from_vcap_def)
  have c: "check_credentials (example_file_service\<lparr>self_username := Some [], self_password := Some ''pw''\<rparr>)
           = Inr (example_file_service\<lparr>self_username := Some [], self_password := Some ''pw''\<rparr>)"
    by (simp add: check_credentials_def example_file_service_def)
  show ?thesis
    by (simp add: BaseService_init_def init_attributes_eq file_values e f v c)
qed

lemma empty_username_gets_no_basic_auth:
  "(case request_prepare (\<lambda>d. d) example_get_token True
           (example_vcap_service\<lparr>self_username := Some []\<rparr>)
           ''GET'' ''/v1/items'' False None None JNull NoData None [] of
      Inl e \<Rightarrow> False
    | Inr call \<Rightarrow> call_auth call = None
                 \<and> ci_getitem (call_headers call) ''Authorization'' = Some ''Bearer tok'')"
proof -
  have l: "lower ''Authorization'' = ''authorization''"
    by code_simp
  show ?thesis
    by (simp add: request_prepare_def example_vcap_service_def example_get_token_def truthy_def
          remove_null_values_json_def remove_null_values_data_def truthy_data_def
          ci_setitem_def ci_getitem_def BEARER_def l)
qed

section \<open>C1: the authentication modes after construction\<close>

text \<open>
  Claim C1 says that after every successful construction exactly one of
  "username and password both set" and "a token manager is present" holds.
  The constructor does not keep the two apart: a \<^verbatim>\<open>VCAP_SERVICES\<close> binding
  with a username, a password and an API key sets all three (lines 116 to
  121), and the last test (line 127) refuses only a service with neither.
\<close>

theorem both_modes_counterexample:
  "BaseService_init example_vcap_environment ''svc'' (Some ''https://api.test'') None None True
     None None None None None = Inr example_vcap_service
   \<and> self_username example_vcap_service = Some ''bob''
   \<and> self_password example_vcap_service = Some ''pw''
   \<and> self_token_manager example_vcap_service = Some (IAMTokenManager (Some ''key'') None None)"
  by (simp add: vcap_construction) (simp add: example_vcap_service_def IAMTokenManager_def)

text \<open>
  Claim C1, amended. After every successful construction at least one mode is
  active: the username and the password are both present (not \<^verbatim>\<open>None\<close>), or
  a token manager is. When the arguments of the constructor settled the
  credentials (step 1 left a non-empty username or a token manager), exactly
  one of the two is.
\<close>

theorem construction_activates_a_mode:
  assumes "BaseService_init env vcap_services_name url username password use_vcap_services
             api_key iam_apikey iam_access_token iam_url display_name = Inr self"
  shows "((self_username self \<noteq> None \<and> self_password self \<noteq> None) \<or> self_token_manager self \<noteq> None)
       \<and> ((\<exists>s. explicit_credentials env url username password api_key iam_apikey
                   iam_access_token iam_url = Inr s
                \<and> (truthy (self_username s) \<or> self_token_manager s \<noteq> None))
            \<longrightarrow> \<not> ((self_username self \<noteq> None \<and> self_password self \<noteq> None)
                    \<and> self_token_manager self \<noteq> None))"
proof (intro conjI impI)
  from assms obtain s3 where "check_credentials s3 = Inr self"
    by (auto simp add: BaseService_init_def and_then_eq_Inr)
  then show "(self_username self \<noteq> None \<and> self_password self \<noteq> None) \<or> self_token_manager self \<noteq> None"
    by (auto simp add: check_credentials_def split: if_splits)
next
  assume "\<exists>s. explicit_credentials env url username password api_key iam_apikey
                 iam_access_token iam_url = Inr s
              \<and> (truthy (self_username s) \<or> self_token_manager s \<noteq> None)"
  then obtain s
    where s: "explicit_credentials env url username password api_key iam_apikey
                iam_access_token iam_url = Inr s"
      and r: "truthy (self_username s) \<or> self_token_manager s \<noteq> None"
    by blast
  have "self = s"
    using resolved_skips_sources [OF s r, of env vcap_services_name use_vcap_services display_name]
      assms
    by simp
  then show "\<not> ((self_username self \<noteq> None \<and> self_password self \<noteq> None)
               \<and> self_token_manager self \<noteq> None)"
    using explicit_credentials_modes(2) [OF s] by auto
qed

theorem construction_activates_a_mode_witness:
  "BaseService_init example_file_environment ''svc'' (Some ''https://api.test'') None None True
     (Some ''argkey'') None None None (Some ''My Service'') = Inr example_key_service
   \<and> self_token_manager example_key_service \<noteq> None
   \<and> \<not> (self_username example_key_service \<noteq> None \<and> self_password example_key_service \<noteq> None)"
  using construction_activates_a_mode [OF key_construction] key_explicit key_construction
    explicit_credentials_env [of example_file_environment _ _ _ _ _ _ _ example_environment]
  by (auto simp add: example_key_service_def)

section \<open>C2: validation of credential strings\<close>

lemma APIKEY_is_good [simp]: "\<not> has_bad_first_or_last_char (Some APIKEY)"
  by (simp add: has_bad_first_or_last_char_def bad_chars_def APIKEY_def startswith_def endswith_def)





























section \<open>C3: the IAM URL line of the credentials file\<close>

text \<open>Every key that contains \<^verbatim>\<open>iam_url\<close> contains \<^verbatim>\<open>url\<close>, so the branch of line
  173 is never taken: no line of a credentials file changes the IAM URL.\<close>

lemma startswith_append: "startswith s p \<longleftrightarrow> (\<exists>rest. s = p @ rest)"
  unfolding startswith_def
  by (metis append_eq_conv_conj append_take_drop_id)

lemma str_in_Cons: "str_in p cs \<Longrightarrow> str_in p (c # cs)"
  by simp

lemma iam_url_contains_url: "str_in IAM_URL key \<Longrightarrow> str_in URL key"
proof (induction key)
  case Nil
  then show ?case by (simp add: IAM_URL_def)
next
  case (Cons c cs)
  from Cons.prems have "startswith (c # cs) IAM_URL \<or> str_in IAM_URL cs" by simp
  then show ?case
  proof
    assume "startswith (c # cs) IAM_URL"
    then obtain rest where "c # cs = IAM_URL @ rest"
      using startswith_append by blast
    then show ?thesis
      by (simp add: IAM_URL_def URL_def startswith_def)
  next
    assume "str_in IAM_URL cs"
    then show ?thesis using Cons.IH by simp
  qed
qed

lemma set_credential_based_on_type_iam_url:
  assumes "set_credential_based_on_type self service_name key val = Inr s"
  shows "self_iam_url s = self_iam_url self"
  using assms iam_url_contains_url [of key]
  by (auto simp add: set_credential_based_on_type_def set_iam_apikey_def set_url_def
      split: if_splits)

lemma credentials_file_never_sets_iam_url:
  "read_credential_lines self service_name separator fp = Inr s \<Longrightarrow>
     self_iam_url s = self_iam_url self"
proof (induction fp arbitrary: self)
  case Nil
  then show ?case by simp
next
  case (Cons line fp)
  show ?case
  proof (cases "length (split separator (strip line)) = 2")
    case False
    with Cons show ?thesis by (simp add: Let_def)
  next
    case True
    with Cons.prems obtain self' where
      1: "set_credential_based_on_type self service_name
            (lower (split separator (strip line) ! 0)) (split separator (strip line) ! 1) = Inr self'"
      and 2: "read_credential_lines self' service_name separator fp = Inr s"
      by (auto simp add: Let_def split: sum.splits)
    from Cons.IH [OF 2] set_credential_based_on_type_iam_url [OF 1] show ?thesis by simp
  qed
qed

text \<open>
  Claim C3 (the code departs from it). A line of the credentials file whose
  key contains the service name and \<^verbatim>\<open>iam_url\<close> should set the IAM URL of the
  token manager. Line 165 tests for \<^verbatim>\<open>url\<close> before line 173 tests for
  \<^verbatim>\<open>iam_url\<close>, and every key with \<^verbatim>\<open>iam_url\<close> in it has \<^verbatim>\<open>url\<close> in it: the
  value goes to \<^verbatim>\<open>set_url\<close>. With the two-line file of the example, the
  service ends with the IAM endpoint as its base URL and with no IAM URL,
  neither its own nor its token manager's.
\<close>

theorem iam_url_line_sets_service_url:
  "set_credential_based_on_type self ''my_service'' ''my_service_iam_url'' ''https://iam.test/token''
     = Inr (self\<lparr>self_url := Some ''https://iam.test/token''\<rparr>)
   \<and> BaseService_init example_file_environment ''svc'' (Some ''https://api.test'') None None False
        None None None None (Some ''My Service'') = Inr example_file_service
   \<and> self_url example_file_service = Some ''https://iam.test/token''
   \<and> self_iam_url example_file_service = None
   \<and> map_option tm_iam_url (self_token_manager example_file_service) = Some None"
proof -
  have a: "set_credential_based_on_type self ''my_service'' ''my_service_iam_url''
             ''https://iam.test/token''
           = Inr (self\<lparr>self_url := Some ''https://iam.test/token''\<rparr>)"
    by (simp add: set_credential_based_on_type_def set_url_def file_key_tests file_values
          del: str_in.simps)
  show ?thesis
    using a file_construction by (simp add: example_file_service_def)
qed

section \<open>C4: a JSON body\<close>

text \<open>
  Claim C4 (the code departs from it). With a JSON body and no raw body,
  \<^verbatim>\<open>request\<close> should serialise the body, set the content type and send the
  request. Line 301 looks \<^verbatim>\<open>dumps\<close> up on the body itself, not on the JSON
  module: for every JSON object as body the call raises \<^verbatim>\<open>AttributeError\<close>,
  whatever the service (with a base URL), the token manager and the
  transport, and nothing is sent.
\<close>

theorem json_body_raises_attribute_error:
  "request cleanup_values get_token transport python3 (self\<lparr>self_url := Some base\<rparr>) method url
     accept_json headers params (JObj kvs) NoData files kwargs
   = Inl AttributeError"
  by (simp add: request_def request_prepare_def Let_def remove_null_values_json_def
        remove_null_values_data_def truthy_data_def getattr_dumps_def)

section \<open>C5: the username \<^verbatim>\<open>apikey\<close>\<close>

text \<open>
  Claim C5 (the code departs from it). A username equal to \<^verbatim>\<open>apikey\<close> with a
  password that does not start with \<^verbatim>\<open>icp-\<close> should lead to a token manager.
  Line 94 compares the username with \<^verbatim>\<open>is\<close>: a string with these six
  characters that is not the object of the constant gives basic
  authentication with username \<^verbatim>\<open>apikey\<close>, and no token manager; the object
  of the constant gives the token manager.
\<close>

theorem equal_but_not_identical_apikey_username:
  "BaseService_init example_environment ''svc'' (Some ''https://api.test'')
     (Some (Other_object ''apikey'')) (Some ''secret'') True None None None None None
   = Inr example_basic_service
   \<and> self_username example_basic_service = Some ''apikey''
   \<and> self_password example_basic_service = Some ''secret''
   \<and> self_token_manager example_basic_service = None
   \<and> BaseService_init example_environment ''svc'' (Some ''https://api.test'')
       (Some APIKEY_object) (Some ''secret'') True None None None None None
     = Inr (example_basic_service
             \<lparr>self_username := None, self_password := None, self_iam_apikey := Some ''secret'',
              self_token_manager := Some (IAMTokenManager (Some ''secret'') None None)\<rparr>)"
proof -
  have a: "BaseService_init example_environment ''svc'' (Some ''https://api.test'')
             (Some (Other_object ''apikey'')) (Some ''secret'') True None None None None None
           = Inr example_basic_service"
    by code_simp
  have b: "BaseService_init example_environment ''svc'' (Some ''https://api.test'')
             (Some APIKEY_object) (Some ''secret'') True None None None None None
           = Inr (example_basic_service
                   \<lparr>self_username := None, self_password := None,
                    self_iam_apikey := Some ''secret'',
                    self_token_manager := Some (IAMTokenManager (Some ''secret'') None None)\<rparr>)"
    by code_simp
  show ?thesis using a b by (simp add: example_basic_service_def)
qed

section \<open>C6: precedence of the constructor's arguments\<close>

text \<open>
  Claim C6. When the arguments of the constructor have set the credentials,
  the credentials file and \<^verbatim>\<open>VCAP_SERVICES\<close> are not consulted. "Set" is what
  lines 105 and 110 test: step 1 left a non-empty username or a token
  manager (an API key argument always does). Then the constructor returns the
  service of step 1 in every environment \<open>env'\<close>, whatever files and bindings it
  holds, and \<^verbatim>\<open>vcap_service_credentials\<close> is never assigned. In particular an
  explicit API key is the one in use: as the password of user \<^verbatim>\<open>apikey\<close> when
  it starts with \<^verbatim>\<open>icp-\<close>, as the API key of the token manager otherwise.
\<close>

theorem explicit_credentials_take_precedence:
  assumes "explicit_credentials env url username password api_key iam_apikey iam_access_token
             iam_url = Inr self"
    and "api_key \<noteq> None \<or> truthy (self_username self) \<or> self_token_manager self \<noteq> None"
  shows "BaseService_init env' vcap_services_name url username password use_vcap_services
           api_key iam_apikey iam_access_token iam_url display_name = Inr self
       \<and> self_vcap_service_credentials self = None
       \<and> (\<forall>key. api_key = Some key \<longrightarrow>
             (if startswith key ICP_PREFIX
              then self_username self = Some APIKEY \<and> self_password self = Some key
                   \<and> self_token_manager self = None
              else self_token_manager self = Some (IAMTokenManager (Some key) iam_access_token iam_url)
                   \<and> self_iam_apikey self = Some key \<and> self_username self = None))"
proof (intro conjI allI impI)
  have r: "truthy (self_username self) \<or> self_token_manager self \<noteq> None"
    using assms(2) explicit_credentials_modes(3) [OF assms(1)] by blast
  show "BaseService_init env' vcap_services_name url username password use_vcap_services
           api_key iam_apikey iam_access_token iam_url display_name = Inr self"
    by (rule resolved_skips_sources [OF assms(1) r])
  show "self_vcap_service_credentials self = None"
    by (rule explicit_credentials_modes(1) [OF assms(1)])
next
  fix key
  assume k: "api_key = Some key"
  show "if startswith key ICP_PREFIX
        then self_username self = Some APIKEY \<and> self_password self = Some key
             \<and> self_token_manager self = None
        else self_token_manager self = Some (IAMTokenManager (Some key) iam_access_token iam_url)
             \<and> self_iam_apikey self = Some key \<and> self_username self = None"
    using assms(1) k
    by (auto simp add: explicit_credentials_def init_attributes_eq credentials_from_constructor_def
          fresh_service_def
        split: if_splits
        dest!: set_username_and_password_Inr set_token_manager_Inr)
qed

text \<open>The precedence test of the specification: an explicit API key and a
  credentials file that names another key.\<close>

theorem explicit_credentials_take_precedence_witness:
  "BaseService_init example_file_environment ''svc'' (Some ''https://api.test'') None None True
     (Some ''argkey'') None None None (Some ''My Service'') = Inr example_key_service
   \<and> self_iam_apikey example_key_service = Some ''argkey''
   \<and> self_token_manager example_key_service = Some (IAMTokenManager (Some ''argkey'') None None)
   \<and> self_vcap_service_credentials example_key_service = None"
proof -
  have n: "\<not> startswith ''argkey'' ICP_PREFIX"
    by (simp add: startswith_def ICP_PREFIX_def)
  show ?thesis
    using explicit_credentials_take_precedence
            [OF key_explicit, of example_file_environment "''svc''" True "Some ''My Service''"] n
    by simp
qed

section \<open>C7 and C8: response mapping\<close>

text \<open>
  Claim C7. Whenever the transport answers with a status from 200 to 299,
  \<^verbatim>\<open>request\<close> returns a \<^verbatim>\<open>DetailedResponse\<close> that carries the headers and the
  status code of the response. Its body is absent if the status is 204 or the
  method is \<^verbatim>\<open>HEAD\<close>; otherwise, if a JSON response was requested, it is the
  parsed JSON, and absent (still a success) when parsing fails; otherwise it
  is the response itself.
\<close>

theorem success_response_mapping:
  assumes "request_prepare cleanup_values get_token python3 self method url accept_json headers
             params json data files kwargs = Inr call"
    and "transport call = Inr response"
    and "200 \<le> status_code response" and "status_code response \<le> 299"
  shows "request cleanup_values get_token transport python3 self method url accept_json headers
           params json data files kwargs =
         Inr (DetailedResponse
               (if status_code response = 204 \<or> method = ''HEAD'' then ResultNone
                else if accept_json then
                  (case response_json response of
                     None \<Rightarrow> ResultNone
                   | Some parsed \<Rightarrow> ResultJson parsed)
                else ResultResponse response)
               (response_headers response) (status_code response))"
  using assms by (simp add: request_def request_respond_def split: option.split)

theorem success_response_mapping_witness:
  "request (\<lambda>d. d) (\<lambda>tm. Inl TokenError) (\<lambda>call. Inr (example_response 200)) True example_service
     ''GET'' ''/v1/items'' True None None JNull NoData None [] =
   Inr (DetailedResponse ResultNone [(''content-length'', ''0'')] 200)"
proof -
  obtain call where c:
    "request_prepare (\<lambda>d. d) (\<lambda>tm. Inl TokenError) True example_service
       ''GET'' ''/v1/items'' True None None JNull NoData None [] = Inr call"
    using example_service_prepares by blast
  show ?thesis
    using success_response_mapping
            [OF c, of "\<lambda>call. Inr (example_response 200)" "example_response 200"]
    by (simp add: example_response_def)
qed

text \<open>
  Claim C8. Whenever the transport answers with a status outside 200 to 299,
  \<^verbatim>\<open>request\<close> raises an \<^verbatim>\<open>ApiException\<close> built from the status code, the
  response itself, and a message that is the fixed text about invalid
  credentials exactly when the status is 401 and \<^verbatim>\<open>None\<close> for every other
  status.
\<close>

theorem failure_response_mapping:
  assumes "request_prepare cleanup_values get_token python3 self method url accept_json headers
             params json data files kwargs = Inr call"
    and "transport call = Inr response"
    and "status_code response < 200 \<or> 299 < status_code response"
  shows "request cleanup_values get_token transport python3 self method url accept_json headers
           params json data files kwargs =
         Inl (ApiException (status_code response)
               (if status_code response = 401
                then Some ''Unauthorized: Access is denied due to invalid credentials''
                else None)
               response)"
  using assms by (auto simp add: request_def request_respond_def)

theorem failure_response_mapping_witness:
  "request (\<lambda>d. d) (\<lambda>tm. Inl TokenError) (\<lambda>call. Inr (example_response 401)) True example_service
     ''GET'' ''/v1/items'' True None None JNull NoData None [] =
   Inl (ApiException 401 (Some ''Unauthorized: Access is denied due to invalid credentials'')
         (example_response 401))
   \<and> request (\<lambda>d. d) (\<lambda>tm. Inl TokenError) (\<lambda>call. Inr (example_response 404)) True example_service
       ''GET'' ''/v1/items'' True None None JNull NoData None [] =
     Inl (ApiException 404 None (example_response 404))"
proof -
  obtain call where c:
    "request_prepare (\<lambda>d. d) (\<lambda>tm. Inl TokenError) True example_service
       ''GET'' ''/v1/items'' True None None JNull NoData None [] = Inr call"
    using example_service_prepares by blast
  show ?thesis
    using failure_response_mapping
            [OF c, of "\<lambda>call. Inr (example_response 401)" "example_response 401"]
          failure_response_mapping
            [OF c, of "\<lambda>call. Inr (example_response 404)" "example_response 404"]
    by (simp add: example_response_def)
qed

section \<open>C9: the headers of a request\<close>

text \<open>No step of the constructor after line 85 touches the user-agent header:
  every service that the constructor returns has none.\<close>

lemma set_credential_based_on_type_user_agent:
  assumes "set_credential_based_on_type self service_name key val = Inr s"
  shows "self_user_agent_header s = self_user_agent_header self"
  using assms
  by (auto simp add: set_credential_based_on_type_def set_iam_apikey_def set_url_def
        set_iam_url_def split: if_splits)

lemma read_credential_lines_user_agent:
  "read_credential_lines self service_name separator fp = Inr s \<Longrightarrow>
     self_user_agent_header s = self_user_agent_header self"
proof (induction fp arbitrary: self)
  case Nil
  then show ?case by simp
next
  case (Cons line fp)
  show ?case
  proof (cases "length (split separator (strip line)) = 2")
    case False
    with Cons show ?thesis by (simp add: Let_def)
  next
    case True
    with Cons.prems obtain self' where
      1: "set_credential_based_on_type self service_name
            (lower (split separator (strip line) ! 0)) (split separator (strip line) ! 1) = Inr self'"
      and 2: "read_credential_lines self' service_name separator fp = Inr s"
      by (auto simp add: Let_def split: sum.splits)
    from Cons.IH [OF 2] set_credential_based_on_type_user_agent [OF 1] show ?thesis by simp
  qed
qed

lemma credentials_from_file_user_agent:
  assumes "credentials_from_file env self display_name = Inr s"
  shows "self_user_agent_header s = self_user_agent_header self"
  using assms
  by (auto simp add: credentials_from_file_def load_from_credential_file_def Let_def
      split: if_splits option.splits opened.splits
      dest: read_credential_lines_user_agent)

lemma set_iam_apikey_user_agent:
  "set_iam_apikey self k = Inr s \<Longrightarrow> self_user_agent_header s = self_user_agent_header self"
  by (auto simp add: set_iam_apikey_def split: if_splits)

lemma if_present_user_agent:
  assumes "if_present creds name setter self = Inr s"
    and "\<And>self v s. setter self v = Inr s \<Longrightarrow> self_user_agent_header s = self_user_agent_header self"
  shows "self_user_agent_header s = self_user_agent_header self"
  using assms by (auto simp add: if_present_def split: option.splits)

lemma apply_vcap_credentials_user_agent:
  assumes "apply_vcap_credentials self creds = Inr s"
  shows "self_user_agent_header s = self_user_agent_header self"
proof -
  from assms obtain url where u: "map_of creds URL = Some url"
    by (auto simp add: apply_vcap_credentials_def split: option.splits)
  from assms u obtain s1 s2 s3 s4 where
    1: "if_present creds USERNAME (\<lambda>self v. Inr (self\<lparr>self_username := v\<rparr>))
          (self\<lparr>self_url := url\<rparr>) = Inr s1"
    and 2: "if_present creds PASSWORD (\<lambda>self v. Inr (self\<lparr>self_password := v\<rparr>)) s1 = Inr s2"
    and 3: "if_present creds APIKEY set_iam_apikey s2 = Inr s3"
    and 4: "if_present creds IAM_APIKEY set_iam_apikey s3 = Inr s4"
    and 5: "if_present creds IAM_ACCESS_TOKEN (\<lambda>self v. Inr (set_iam_access_token self v)) s4 = Inr s"
    by (auto simp add: apply_vcap_credentials_def and_then_eq_Inr)
  have "self_user_agent_header s1 = self_user_agent_header self"
    using if_present_user_agent [OF 1] by auto
  moreover have "self_user_agent_header s2 = self_user_agent_header s1"
    using if_present_user_agent [OF 2] by auto
  moreover have "self_user_agent_header s3 = self_user_agent_header s2"
    using if_present_user_agent [OF 3] set_iam_apikey_user_agent by blast
  moreover have "self_user_agent_header s4 = self_user_agent_header s3"
    using if_present_user_agent [OF 4] set_iam_apikey_user_agent by blast
  moreover have "self_user_agent_header s = self_user_agent_header s4"
    using if_present_user_agent [OF 5] by (auto simp add: set_iam_access_token_def)
  ultimately show ?thesis by simp
qed

lemma credentials_from_vcap_user_agent:
  assumes "credentials_from_vcap env self vcap_services_name use_vcap_services = Inr s"
  shows "self_user_agent_header s = self_user_agent_header self"
proof (cases "use_vcap_services \<and> \<not> truthy (self_username self) \<and> self_token_manager self = None")
  case False
  with assms show ?thesis by (auto simp add: credentials_from_vcap_def)
next
  case True
  with assms obtain loaded where
    l: "(case loaded of
           Some (Dict creds) \<Rightarrow>
             apply_vcap_credentials (self\<lparr>self_vcap_service_credentials := Some loaded\<rparr>) creds
         | _ \<Rightarrow> Inr (self\<lparr>self_vcap_service_credentials := Some loaded\<rparr>)) = Inr s"
    by (auto simp add: credentials_from_vcap_def and_then_eq_Inr Let_def)
  show ?thesis
  proof (cases loaded)
    case None
    with l show ?thesis by auto
  next
    case (Some c)
    with l show ?thesis
      by (cases c) (auto dest: apply_vcap_credentials_user_agent)
  qed
qed

lemma constructor_loses_user_agent:
  assumes "BaseService_init env vcap_services_name url username password use_vcap_services
             api_key iam_apikey iam_access_token iam_url display_name = Inr self"
  shows "self_user_agent_header self = None"
proof -
  from assms obtain s1 s2 s3 where
    1: "explicit_credentials env url username password api_key iam_apikey iam_access_token iam_url = Inr s1"
    and 2: "credentials_from_file env s1 display_name = Inr s2"
    and 3: "credentials_from_vcap env s2 vcap_services_name use_vcap_services = Inr s3"
    and 4: "check_credentials s3 = Inr self"
    by (auto simp add: BaseService_init_explicit and_then_eq_Inr)
  from 4 have "self = s3" by (simp add: check_credentials_def split: if_splits)
  with explicit_credentials_modes(4) [OF 1] credentials_from_file_user_agent [OF 2]
    credentials_from_vcap_user_agent [OF 3]
  show ?thesis by simp
qed

text \<open>The order of the merge (lines 282 to 287): a header name is looked up,
  without regard to case, in the headers of the call, then in the
  \<^verbatim>\<open>accept\<close> header of a JSON request, then in the default headers of the
  service, then in its user-agent header. Only the authorization header of a
  service with a token manager is written after the merge.\<close>

lemma ci_update_snoc: "ci_update d (kvs @ [(k, v)]) = ci_setitem (ci_update d kvs) k v"
  by (simp add: ci_update_def)

lemma ci_getitem_update:
  "ci_getitem (ci_update d kvs) k =
     (case header_lookup kvs k of Some v \<Rightarrow> Some v | None \<Rightarrow> ci_getitem d k)"
proof (induction kvs rule: rev_induct)
  case Nil
  then show ?case by (simp add: ci_update_def header_lookup_def)
next
  case (snoc kv kvs)
  obtain k' v where kv: "kv = (k', v)" by (cases kv)
  show ?case
    using snoc
    by (simp add: kv ci_update_snoc ci_setitem_def ci_getitem_def header_lookup_def)
qed

lemma ci_getitem_setitem:
  "ci_getitem (ci_setitem d k' v) k = (if lower k' = lower k then Some v else ci_getitem d k)"
  by (simp add: ci_setitem_def ci_getitem_def)

lemma ci_getitem_empty: "ci_getitem Map.empty k = None"
  by (simp add: ci_getitem_def)

lemma lower_header_names:
  "lower ''accept'' = ''accept''" "lower ''Authorization'' = ''authorization''"
  by code_simp+

lemma merge_headers_lookup:
  "ci_getitem (merge_headers cleanup_values self accept_json headers) k =
     (case header_lookup
             (cleanup_values (case headers of
                                None \<Rightarrow> []
                              | Some h \<Rightarrow> if h \<noteq> [] then remove_null_values h else [])) k of
        Some v \<Rightarrow> Some v
      | None \<Rightarrow>
          if accept_json \<and> lower k = ''accept'' then Some ''application/json''
          else (case header_lookup (case self_default_headers self of
                                      None \<Rightarrow> [] | Some d \<Rightarrow> d) k of
                  Some v \<Rightarrow> Some v
                | None \<Rightarrow> header_lookup (case self_user_agent_header self of
                                            None \<Rightarrow> [] | Some d \<Rightarrow> d) k))"
  by (simp add: merge_headers_def Let_def ci_getitem_update ci_getitem_setitem ci_getitem_empty
        CaseInsensitiveDict_def lower_header_names header_lookup_def
      split: option.splits)

lemma request_prepare_headers:
  assumes "request_prepare cleanup_values get_token python3 self method url accept_json headers
             params json data files kwargs = Inr call"
  shows "(self_token_manager self = None
            \<and> call_headers call = merge_headers cleanup_values self accept_json headers)
       \<or> (\<exists>tm access_token. self_token_manager self = Some tm \<and> get_token tm = Inr access_token
            \<and> call_headers call =
                ci_setitem (merge_headers cleanup_values self accept_json headers)
                  ''Authorization'' (BEARER @ '' '' @ access_token))"
proof -
  from assms obtain base where b: "self_url self = Some base"
    by (auto simp add: request_prepare_def split: option.splits)
  show ?thesis
  proof (cases "self_token_manager self")
    case None
    with assms b show ?thesis
      by (auto simp add: request_prepare_def Let_def and_then_eq_Inr getattr_dumps_def
          split: if_splits)
  next
    case (Some tm)
    with assms b show ?thesis
      by (auto simp add: request_prepare_def Let_def and_then_eq_Inr getattr_dumps_def
          split: if_splits)
  qed
qed

lemma header_merge_order:
  assumes "request_prepare cleanup_values get_token python3 self method url accept_json headers
             params json data files kwargs = Inr call"
    and "lower k \<noteq> ''authorization''"
  shows "ci_getitem (call_headers call) k =
           ci_getitem (merge_headers cleanup_values self accept_json headers) k"
  using request_prepare_headers [OF assms(1)] assms(2)
  by (auto simp add: ci_getitem_setitem lower_header_names)

text \<open>The test of the specification: a header of the call overrides a default
  header of the same name in another case.\<close>

lemma per_call_header_overrides_default:
  "ci_getitem (merge_headers (\<lambda>d. d)
                 (example_service\<lparr>self_default_headers := Some [(''X-Test'', ''default'')]\<rparr>)
                 False (Some [(''x-test'', Some ''call'')])) ''X-Test'' = Some ''call''"
proof -
  have l: "lower ''X-Test'' = ''x-test''" "lower ''x-test'' = ''x-test''"
    by code_simp+
  show ?thesis
    by (simp add: merge_headers_lookup header_lookup_def remove_null_values_def l)
qed

text \<open>
  Claim C9 (the code departs from it). The headers of every request should
  start from the user-agent header of the SDK. Line 85 stores what
  \<^verbatim>\<open>set_user_agent_header\<close> returns, which is \<^verbatim>\<open>None\<close>, over the header that
  the method has just set: a service as the constructor returns it has no
  user-agent header, and the headers of its requests start empty. Here the
  only header sent is the authorization.
\<close>

theorem constructed_service_sends_no_user_agent:
  "BaseService_init example_environment ''svc'' (Some ''https://api.test'') None None True
     (Some ''argkey'') None None None None = Inr example_key_service
   \<and> self_user_agent_header example_key_service = None
   \<and> (case request_prepare (\<lambda>d. d) example_get_token True example_key_service
              ''GET'' ''/v1/items'' False None None JNull NoData None [] of
         Inl e \<Rightarrow> False
       | Inr call \<Rightarrow> ci_getitem (call_headers call) ''user-agent'' = None
                    \<and> dom (call_headers call) = {''authorization''})"
proof -
  have a: "BaseService_init example_environment ''svc'' (Some ''https://api.test'') None None True
             (Some ''argkey'') None None None None = Inr example_key_service"
    by code_simp
  have l: "lower ''Authorization'' = ''authorization''" "lower ''user-agent'' = ''user-agent''"
    by code_simp+
  have b: "(case request_prepare (\<lambda>d. d) example_get_token True example_key_service
              ''GET'' ''/v1/items'' False None None JNull NoData None [] of
         Inl e \<Rightarrow> False
       | Inr call \<Rightarrow> ci_getitem (call_headers call) ''user-agent'' = None
                    \<and> dom (call_headers call) = {''authorization''})"
    by (simp add: request_prepare_def example_key_service_def example_get_token_def truthy_def
          remove_null_values_json_def remove_null_values_data_def truthy_data_def
          merge_headers_def CaseInsensitiveDict_def ci_update_def ci_setitem_def ci_getitem_def l)
  show ?thesis using a b by (simp add: example_key_service_def)
qed

section \<open>C10: a service with both kinds of credentials\<close>

text \<open>
  Claim C10. When a service has a token manager and also a username and a
  password (set as line 308 tests it: both non-empty), \<^verbatim>\<open>request\<close> puts both
  on the one outgoing call: the header \<^verbatim>\<open>Authorization: Bearer\<close> with the
  token of the token manager, and the pair of username and password as the
  basic-authentication argument of the transport. Such a service is what the
  constructor returns for the \<^verbatim>\<open>VCAP_SERVICES\<close> binding of the example.
\<close>

theorem both_credentials_decorate_request:
  assumes "self_token_manager self = Some tm"
    and "get_token tm = Inr access_token"
    and "self_username self = Some user" and "user \<noteq> []"
    and "self_password self = Some pw" and "pw \<noteq> []"
    and "request_prepare cleanup_values get_token python3 self method url accept_json headers
           params json data files kwargs = Inr call"
  shows "ci_getitem (call_headers call) ''Authorization'' = Some (''Bearer '' @ access_token)
       \<and> call_auth call = Some (user, pw)
       \<and> request cleanup_values get_token transport python3 self method url accept_json headers
           params json data files kwargs =
         and_then (transport call) (request_respond method accept_json)"
  using assms
  by (auto simp add: request_def request_prepare_def Let_def and_then_eq_Inr truthy_def
        ci_getitem_def ci_setitem_def BEARER_def getattr_dumps_def
      split: option.splits if_splits prod.splits)

theorem both_credentials_decorate_request_witness:
  "BaseService_init example_vcap_environment ''svc'' (Some ''https://api.test'') None None True
     None None None None None = Inr example_vcap_service
   \<and> (\<exists>call. request_prepare (\<lambda>d. d) example_get_token True example_vcap_service
                ''GET'' ''/v1/items'' False None None JNull NoData None [] = Inr call
             \<and> ci_getitem (call_headers call) ''Authorization'' = Some ''Bearer tok''
             \<and> call_auth call = Some (''bob'', ''pw''))"
proof -
  obtain call where c:
    "request_prepare (\<lambda>d. d) example_get_token True example_vcap_service
       ''GET'' ''/v1/items'' False None None JNull NoData None [] = Inr call"
    by (simp add: request_prepare_def example_vcap_service_def example_get_token_def truthy_def
          remove_null_values_json_def remove_null_values_data_def truthy_data_def)
  have t: "self_token_manager example_vcap_service
             = Some \<lparr>tm_iam_apikey = Some ''key'', tm_iam_access_token = None, tm_iam_url = None\<rparr>"
    and u: "self_username example_vcap_service = Some ''bob''"
    and p: "self_password example_vcap_service = Some ''pw''"
    by (simp_all add: example_vcap_service_def)
  have g: "example_get_token \<lparr>tm_iam_apikey = Some ''key'', tm_iam_access_token = None,
                               tm_iam_url = None\<rparr> = Inr ''tok''"
    by (simp add: example_get_token_def)
  have "ci_getitem (call_headers call) ''Authorization'' = Some (''Bearer '' @ ''tok'')
        \<and> call_auth call = Some (''bob'', ''pw'')"
    using both_credentials_decorate_request [OF t g u _ p _ c] by simp
  then show ?thesis
    using c vcap_construction by auto
qed

end
